theory Spec2Isabelle
  imports Complex_Main "HOL-Library.Multiset"
begin

section \<open>JavaScript strings and raw cell values\<close>

text \<open>
  A JavaScript string is a sequence of UTF-16 code units. The regular expressions of the
  parser mention currency glyphs beyond one byte, so a code unit is a natural number
  here and a string a list of them. \<open>js\<close> turns an ASCII literal into such a string.
\<close>

type_synonym jchar = nat
type_synonym jstring = "jchar list"

definition js :: "string \<Rightarrow> jstring" where
  "js s = map of_char s"

text \<open>
  The code units that \<^verbatim>\<open>String.prototype.trim\<close> strips and that \<^verbatim>\<open>\s\<close>
  matches: ECMAScript's WhiteSpace and LineTerminator.
\<close>

definition is_ws :: "jchar \<Rightarrow> bool" where
  "is_ws c = (c = 9 \<or> c = 10 \<or> c = 11 \<or> c = 12 \<or> c = 13 \<or> c = 32 \<or> c = 160 \<or>
     c = 5760 \<or> (8192 \<le> c \<and> c \<le> 8202) \<or> c = 8232 \<or> c = 8233 \<or> c = 8239 \<or>
     c = 8287 \<or> c = 12288 \<or> c = 65279)"

definition trim :: "jstring \<Rightarrow> jstring" where
  "trim s = rev (dropWhile is_ws (rev (dropWhile is_ws s)))"

text \<open>
  A raw cell value of the grid: \<^verbatim>\<open>null\<close>, a string, a number or a \<^verbatim>\<open>Date\<close>.
  Reading an array beyond its end yields \<^verbatim>\<open>undefined\<close>, which the parser then
  treats as a value, so it is a value here too. A number and a date carry the text that
  \<^verbatim>\<open>String(...)\<close> renders for them, the only thing the parser ever asks of them
  besides \<^verbatim>\<open>instanceof Date\<close>.
\<close>

datatype cell = CNull | CUndefined | CStr jstring | CNum jstring | CDate jstring

fun String_js :: "cell \<Rightarrow> jstring" where
  "String_js CNull = js ''null''"
| "String_js CUndefined = js ''undefined''"
| "String_js (CStr s) = s"
| "String_js (CNum s) = s"
| "String_js (CDate s) = s"

fun instanceof_Date :: "cell \<Rightarrow> bool" where
  "instanceof_Date (CDate s) = True"
| "instanceof_Date c = False"

text \<open>\<^verbatim>\<open>row[i]\<close>: \<^verbatim>\<open>undefined\<close> beyond the end of the array.\<close>

definition cell_at :: "cell list \<Rightarrow> nat \<Rightarrow> cell" where
  "cell_at row i = (if i < length row then row ! i else CUndefined)"

section \<open>Regular expressions\<close>

text \<open>
  The patterns of the source use character classes, sequence, alternation, \<^verbatim>\<open>?\<close>,
  \<^verbatim>\<open>+\<close> and bounded repetition only (no back-references, no look-around), so
  \<^verbatim>\<open>RegExp.prototype.test\<close> decides membership in a regular language. The
  patterns are kept as data and matched by derivatives.
\<close>

datatype rx =
    Nothing
  | Eps
  | Cls "jchar \<Rightarrow> bool"
  | Seq rx rx
  | Alt rx rx
  | Star rx

fun nullable :: "rx \<Rightarrow> bool" where
  "nullable Nothing = False"
| "nullable Eps = True"
| "nullable (Cls p) = False"
| "nullable (Seq r s) = (nullable r \<and> nullable s)"
| "nullable (Alt r s) = (nullable r \<or> nullable s)"
| "nullable (Star r) = True"

fun deriv :: "jchar \<Rightarrow> rx \<Rightarrow> rx" where
  "deriv c Nothing = Nothing"
| "deriv c Eps = Nothing"
| "deriv c (Cls p) = (if p c then Eps else Nothing)"
| "deriv c (Seq r s) =
     (if nullable r then Alt (Seq (deriv c r) s) (deriv c s) else Seq (deriv c r) s)"
| "deriv c (Alt r s) = Alt (deriv c r) (deriv c s)"
| "deriv c (Star r) = Seq (deriv c r) (Star r)"

text \<open>A pattern anchored at both ends (\<^verbatim>\<open>/^r$/\<close>) tests the whole string.\<close>

fun matches :: "rx \<Rightarrow> jstring \<Rightarrow> bool" where
  "matches r [] = nullable r"
| "matches r (c # cs) = matches (deriv c r) cs"

text \<open>A pattern anchored at the start only (\<^verbatim>\<open>/^r/\<close>) tests for a matching prefix.\<close>

fun matches_prefix :: "rx \<Rightarrow> jstring \<Rightarrow> bool" where
  "matches_prefix r [] = nullable r"
| "matches_prefix r (c # cs) = (nullable r \<or> matches_prefix (deriv c r) cs)"

definition Opt :: "rx \<Rightarrow> rx" where
  "Opt r = Alt r Eps"

definition Plus :: "rx \<Rightarrow> rx" where
  "Plus r = Seq r (Star r)"

fun Seqs :: "rx list \<Rightarrow> rx" where
  "Seqs [] = Eps"
| "Seqs [r] = r"
| "Seqs (r # rs) = Seq r (Seqs rs)"

fun Alts :: "rx list \<Rightarrow> rx" where
  "Alts [] = Nothing"
| "Alts [r] = r"
| "Alts (r # rs) = Alt r (Alts rs)"

definition chr :: "char \<Rightarrow> rx" where
  "chr c = Cls (\<lambda>x. x = of_char c)"

definition one_of :: "jchar list \<Rightarrow> rx" where
  "one_of cs = Cls (\<lambda>x. x \<in> set cs)"

definition is_digit :: "jchar \<Rightarrow> bool" where
  "is_digit c = (48 \<le> c \<and> c \<le> 57)"

text \<open>\<^verbatim>\<open>\d\<close> and \<^verbatim>\<open>\s\<close>.\<close>

definition digit :: rx where
  "digit = Cls is_digit"

definition space :: rx where
  "space = Cls is_ws"

text \<open>
  A letter under the \<^verbatim>\<open>i\<close> flag: without the \<^verbatim>\<open>u\<close> flag, only the letter's two
  ASCII cases canonicalise to it.
\<close>

definition ascii_lower :: "jchar \<Rightarrow> jchar" where
  "ascii_lower c = (if 65 \<le> c \<and> c \<le> 90 then c + 32 else c)"

definition ci :: "char \<Rightarrow> rx" where
  "ci c = Cls (\<lambda>x. ascii_lower x = ascii_lower (of_char c))"

definition ci_word :: "string \<Rightarrow> rx" where
  "ci_word s = Seqs (map ci s)"

section \<open>The chart recommendation engine\<close>

text \<open>
  \<^verbatim>\<open>suggestCharts\<close> receives objects with a \<^verbatim>\<open>name\<close> and a \<^verbatim>\<open>type\<close>, both
  strings; the type is compared with string literals, so any string may stand there.
\<close>

record column =
  name :: jstring
  type :: jstring

record suggestion =
  id :: jstring
  chartType :: jstring
  title :: jstring
  xColumn :: "jstring option"
  yColumn :: jstring
  description :: jstring

record suggestions =
  charts :: "suggestion list"
  statCards :: "suggestion list"

text \<open>\<^verbatim>\<open>.replace(/\s+/g, '_')\<close>: every maximal run of whitespace becomes one underscore.\<close>

function replace_ws :: "jstring \<Rightarrow> jstring" where
  "replace_ws [] = []"
| "replace_ws (c # cs) =
     (if is_ws c then of_char CHR ''_'' # replace_ws (dropWhile is_ws cs)
      else c # replace_ws cs)"
  by pat_completeness auto
termination
  by (relation "measure length") (auto simp: length_dropWhile_le less_Suc_eq_le)

definition line_chart :: "column \<Rightarrow> column \<Rightarrow> suggestion" where
  "line_chart dateCol numCol =
     \<lparr>id = replace_ws (js ''line_'' @ name dateCol @ js ''_'' @ name numCol),
      chartType = js ''line'',
      title = name numCol @ js '' Over Time'',
      xColumn = Some (name dateCol),
      yColumn = name numCol,
      description = js ''Trend of '' @ name numCol @ js '' by '' @ name dateCol\<rparr>"

definition area_chart :: "column \<Rightarrow> column \<Rightarrow> suggestion" where
  "area_chart dateCol numCol =
     \<lparr>id = replace_ws (js ''area_'' @ name dateCol @ js ''_'' @ name numCol),
      chartType = js ''area'',
      title = name numCol @ js '' Area Trend'',
      xColumn = Some (name dateCol),
      yColumn = name numCol,
      description = js ''Area chart of '' @ name numCol @ js '' over '' @ name dateCol\<rparr>"

definition bar_chart :: "column \<Rightarrow> column \<Rightarrow> suggestion" where
  "bar_chart catCol numCol =
     \<lparr>id = replace_ws (js ''bar_'' @ name catCol @ js ''_'' @ name numCol),
      chartType = js ''bar'',
      title = name numCol @ js '' by '' @ name catCol,
      xColumn = Some (name catCol),
      yColumn = name numCol,
      description =
        js ''Compare '' @ name numCol @ js '' across '' @ name catCol @ js '' categories''\<rparr>"

definition pie_chart :: "column \<Rightarrow> column \<Rightarrow> suggestion" where
  "pie_chart catCol numCol =
     \<lparr>id = replace_ws (js ''pie_'' @ name catCol @ js ''_'' @ name numCol),
      chartType = js ''pie'',
      title = name numCol @ js '' Distribution by '' @ name catCol,
      xColumn = Some (name catCol),
      yColumn = name numCol,
      description = js ''Proportion of '' @ name numCol @ js '' per '' @ name catCol\<rparr>"

definition stats_card :: "column \<Rightarrow> suggestion" where
  "stats_card col =
     \<lparr>id = replace_ws (js ''stats_'' @ name col),
      chartType = js ''stats'',
      title = name col @ js '' Summary'',
      xColumn = None,
      yColumn = name col,
      description = js ''Total, Average, Min, Max for '' @ name col\<rparr>"

definition is_date_col :: "column \<Rightarrow> bool" where
  "is_date_col c = (type c = js ''Date'')"

definition is_numeric_col :: "column \<Rightarrow> bool" where
  "is_numeric_col c = (type c \<in> set [js ''Number'', js ''Currency'', js ''Percentage''])"

definition is_category_col :: "column \<Rightarrow> bool" where
  "is_category_col c = (type c = js ''Category'')"

text \<open>
  The loops of the source push onto the array \<^verbatim>\<open>suggestions\<close>; each loop is a
  \<open>fold\<close> over the array it walks, with \<^verbatim>\<open>suggestions\<close> as its state.
\<close>

definition push :: "'a list \<Rightarrow> 'a \<Rightarrow> 'a list" where
  "push xs x = xs @ [x]"

definition line_area_loop :: "column list \<Rightarrow> column list \<Rightarrow> suggestion list \<Rightarrow> suggestion list" where
  "line_area_loop dateCols numericCols =
     fold (\<lambda>dateCol. fold (\<lambda>numCol suggestions.
       push (push suggestions (line_chart dateCol numCol)) (area_chart dateCol numCol))
       numericCols) dateCols"

definition bar_loop :: "column list \<Rightarrow> column list \<Rightarrow> suggestion list \<Rightarrow> suggestion list" where
  "bar_loop categoryCols numericCols =
     fold (\<lambda>catCol. fold (\<lambda>numCol suggestions. push suggestions (bar_chart catCol numCol))
       numericCols) categoryCols"

definition pie_loop :: "column list \<Rightarrow> column list \<Rightarrow> suggestion list \<Rightarrow> suggestion list" where
  "pie_loop categoryCols numericCols =
     fold (\<lambda>catCol. fold (\<lambda>numCol suggestions. push suggestions (pie_chart catCol numCol))
       numericCols) categoryCols"

definition suggestCharts :: "column list \<Rightarrow> suggestions" where
  "suggestCharts columns =
     (let dateCols = filter is_date_col columns;
          numericCols = filter is_numeric_col columns;
          categoryCols = filter is_category_col columns;
          suggestions = [];
          suggestions = line_area_loop dateCols numericCols suggestions;
          suggestions = bar_loop categoryCols numericCols suggestions;
          suggestions = pie_loop categoryCols numericCols suggestions;
          statCards = map stats_card numericCols
      in \<lparr>charts = suggestions, statCards = statCards\<rparr>)"

section \<open>The sheet parser\<close>

subsection \<open>Patterns\<close>

text \<open>\<^verbatim>\<open>r{n}\<close>, \<^verbatim>\<open>r{0,m}\<close> and \<^verbatim>\<open>r{n,m}\<close>.\<close>

fun Exactly :: "nat \<Rightarrow> rx \<Rightarrow> rx" where
  "Exactly 0 r = Eps"
| "Exactly (Suc n) r = Seq r (Exactly n r)"

fun AtMost :: "nat \<Rightarrow> rx \<Rightarrow> rx" where
  "AtMost 0 r = Eps"
| "AtMost (Suc m) r = Opt (Seq r (AtMost m r))"

definition Rep :: "nat \<Rightarrow> nat \<Rightarrow> rx \<Rightarrow> rx" where
  "Rep n m r = Seq (Exactly n r) (AtMost (m - n) r)"

text \<open>
  The currency glyphs of the source, as code units: dollar, pound (U+00A3), euro (U+20AC),
  yen (U+00A5), Indian rupee (U+20B9) and rupee (U+20A8).
\<close>

definition dollar :: jchar where "dollar = 36"
definition pound :: jchar where "pound = 163"
definition euro :: jchar where "euro = 8364"
definition yen :: jchar where "yen = 165"
definition indian_rupee :: jchar where "indian_rupee = 8377"
definition rupee :: jchar where "rupee = 8360"

text \<open>\<^verbatim>\<open>[\d,]\<close> and \<^verbatim>\<open>(\.\d+)?\<close>, shared by three patterns.\<close>

definition digit_or_comma :: rx where
  "digit_or_comma = Cls (\<lambda>c. is_digit c \<or> c = of_char CHR '','')"

definition fraction_opt :: rx where
  "fraction_opt = Opt (Seq (chr CHR ''.'') (Plus digit))"

definition currency_glyph :: rx where
  "currency_glyph = one_of [dollar, pound, euro, yen, indian_rupee, rupee]"

text \<open>\<^verbatim>\<open>/^-?[\d$...,.]+/\<close> with dollar, pound and euro in the class (line 150).\<close>

definition looksLikeData_rx :: rx where
  "looksLikeData_rx =
     Seq (Opt (chr CHR ''-''))
       (Plus (Cls (\<lambda>c. is_digit c \<or> c \<in> set [dollar, pound, euro] \<or>
          c = of_char CHR '','' \<or> c = of_char CHR ''.'')))"

text \<open>\<^verbatim>\<open>/^-?\d+(\.\d+)?%$/\<close>\<close>

definition percentage_rx :: rx where
  "percentage_rx = Seqs [Opt (chr CHR ''-''), Plus digit, fraction_opt, chr CHR ''%'']"

text \<open>
  \<^verbatim>\<open>/^-?G\s?[\d,]+(\.\d+)?$|^[\d,]+(\.\d+)?\s?G$/\<close> where \<^verbatim>\<open>G\<close> is the class of
  the six currency glyphs.
\<close>

definition currency_rx :: rx where
  "currency_rx =
     Alt (Seqs [Opt (chr CHR ''-''), currency_glyph, Opt space, Plus digit_or_comma, fraction_opt])
         (Seqs [Plus digit_or_comma, fraction_opt, Opt space, currency_glyph])"

text \<open>\<^verbatim>\<open>/^-?[\d,]+(\.\d+)?$/\<close>\<close>

definition number_rx :: rx where
  "number_rx = Seqs [Opt (chr CHR ''-''), Plus digit_or_comma, fraction_opt]"

text \<open>The four date patterns of \<^verbatim>\<open>isLikelyDate\<close>; the last two carry the \<^verbatim>\<open>i\<close> flag.\<close>

definition date_sep :: rx where
  "date_sep = Cls (\<lambda>c. c = of_char CHR ''/'' \<or> c = of_char CHR ''-'')"

definition month_rx :: rx where
  "month_rx = Alts (map ci_word [''Jan'', ''Feb'', ''Mar'', ''Apr'', ''May'', ''Jun'',
     ''Jul'', ''Aug'', ''Sep'', ''Oct'', ''Nov'', ''Dec''])"

definition date_patterns :: "rx list" where
  "date_patterns =
     [Seqs [Rep 1 2 digit, date_sep, Rep 1 2 digit, date_sep, Rep 2 4 digit],
      Seqs [Exactly 4 digit, date_sep, Rep 1 2 digit, date_sep, Rep 1 2 digit],
      Seqs [month_rx, Plus space, Rep 1 2 digit, Opt (chr CHR '',''), Plus space, Exactly 4 digit],
      Seqs [Rep 1 2 digit, Plus space, month_rx, Plus space, Exactly 4 digit]]"

definition isLikelyDate :: "jstring \<Rightarrow> bool" where
  "isLikelyDate str = list_ex (\<lambda>p. matches p (trim str)) date_patterns"

subsection \<open>Column type inference\<close>

record counters =
  dateCount :: nat
  numberCount :: nat
  currencyCount :: nat
  percentageCount :: nat

text \<open>One round of the loop over \<^verbatim>\<open>values\<close>; each \<^verbatim>\<open>continue\<close> ends the round.\<close>

definition count_value :: "cell \<Rightarrow> counters \<Rightarrow> counters" where
  "count_value raw k =
     (let v = trim (String_js raw) in
      if matches percentage_rx v then k\<lparr>percentageCount := percentageCount k + 1\<rparr>
      else if matches currency_rx v then k\<lparr>currencyCount := currencyCount k + 1\<rparr>
      else if matches number_rx v then k\<lparr>numberCount := numberCount k + 1\<rparr>
      else if instanceof_Date raw \<or> isLikelyDate v then k\<lparr>dateCount := dateCount k + 1\<rparr>
      else k)"

text \<open>
  \<^verbatim>\<open>count / total >= threshold\<close> with \<^verbatim>\<open>threshold = 0.6\<close>. The source divides and
  compares doubles. For a count and a total below \<open>2^32\<close> (the bound on an array's
  length) the doubles decide as the exact fractions do: the double nearest to \<open>0.6\<close> lies
  below \<open>0.6\<close> by less than \<open>10^-16\<close>, a fraction \<open>count / total\<close> below \<open>0.6\<close> lies
  below it by at least \<open>1 / (5 * total)\<close>, and rounding is monotone. So the comparison
  is written over the rationals.
\<close>

definition threshold :: rat where
  "threshold = 6 / 10"

definition meets :: "nat \<Rightarrow> nat \<Rightarrow> bool" where
  "meets n t = (of_nat n / of_nat t \<ge> threshold)"

text \<open>
  \<^verbatim>\<open>String.prototype.toLowerCase\<close> maps by the Unicode case tables of the runtime,
  which are not part of the repository: the function is a parameter of the inference and
  of the parser. \<open>ascii_toLowerCase\<close> is what it does on ASCII text.
\<close>

definition ascii_toLowerCase :: "jstring \<Rightarrow> jstring" where
  "ascii_toLowerCase s = map ascii_lower s"

definition inferColumnType :: "(jstring \<Rightarrow> jstring) \<Rightarrow> cell list \<Rightarrow> jstring" where
  "inferColumnType toLowerCase values =
     (if length values = 0 then js ''Text''
      else
        let k = fold count_value values
                  \<lparr>dateCount = 0, numberCount = 0, currencyCount = 0, percentageCount = 0\<rparr>;
            total = length values
        in if meets (percentageCount k) total then js ''Percentage''
           else if meets (currencyCount k) total then js ''Currency''
           else if meets (dateCount k) total then js ''Date''
           else if meets (numberCount k + currencyCount k) total then js ''Number''
           else
             let unique = set (map (\<lambda>v. toLowerCase (trim (String_js v))) values)
             in if card unique \<le> 20 then js ''Category'' else js ''Text'')"

subsection \<open>From the raw grid to the table\<close>

text \<open>
  \<^verbatim>\<open>XLSX.read\<close> and \<^verbatim>\<open>sheet_to_json\<close> belong to a library outside the repository.
  The parser is modelled from what they hand over: the sheet names and, for a sheet name,
  the array of rows that \<^verbatim>\<open>sheet_to_json\<close> returns for that sheet.
\<close>

record workbook =
  SheetNames :: "jstring list"
  Sheets :: "jstring \<Rightarrow> cell list list"

datatype error =
    NoSheets     \<comment> \<open>\<^verbatim>\<open>Error('The file contains no sheets')\<close>\<close>
  | EmptySheet   \<comment> \<open>\<^verbatim>\<open>Error('The selected sheet is empty')\<close>\<close>

record parsed_column = column +
  sample :: "cell list"

record parsedTable =
  sheetNames :: "jstring list"
  selectedSheet :: jstring
  rowCount :: nat
  columns :: "parsed_column list"
  preview :: "(jstring \<rightharpoonup> cell) list"
  rows :: "(jstring \<rightharpoonup> cell) list"

text \<open>
  \<^verbatim>\<open>selectedSheet && sheetNames.includes(selectedSheet) ? selectedSheet : sheetNames[0]\<close>:
  \<^verbatim>\<open>null\<close> (\<open>None\<close>) and the empty string are falsy. The caller has checked that
  there is a first sheet.
\<close>

definition targetSheet_of :: "jstring list \<Rightarrow> jstring option \<Rightarrow> jstring" where
  "targetSheet_of names selected =
     (case selected of
        None \<Rightarrow> names ! 0
      | Some s \<Rightarrow> if s \<noteq> [] \<and> s \<in> set names then s else names ! 0)"

text \<open>\<^verbatim>\<open>cell !== null && String(cell).trim() !== ''\<close>, the test the parser repeats.\<close>

definition nonEmptyCell :: "cell \<Rightarrow> bool" where
  "nonEmptyCell c = (c \<noteq> CNull \<and> trim (String_js c) \<noteq> [])"

text \<open>
  The header scan: a loop over \<open>i = 0, ..., scanLimit - 1\<close> whose state is the pair
  \<^verbatim>\<open>(headerRowIndex, maxNonEmpty)\<close>, both \<open>0\<close> at the start.
\<close>

definition scan_row :: "cell list list \<Rightarrow> nat \<Rightarrow> nat \<times> nat \<Rightarrow> nat \<times> nat" where
  "scan_row rawRows i st =
     (let nonEmpty = length (filter nonEmptyCell (rawRows ! i)) in
      if nonEmpty > snd st then (i, nonEmpty) else st)"

definition find_header :: "cell list list \<Rightarrow> nat" where
  "find_header rawRows =
     (let scanLimit = min 10 (length rawRows)
      in fst (fold (scan_row rawRows) [0..<scanLimit] (0, 0)))"

text \<open>The decimal numeral of a number, as a template string renders \<^verbatim>\<open>i + 1\<close>.\<close>

function show_nat :: "nat \<Rightarrow> jstring" where
  "show_nat n = (if n < 10 then [48 + n] else show_nat (n div 10) @ [48 + n mod 10])"
  by pat_completeness auto
termination
  by (relation "measure (\<lambda>n. n)") auto

declare show_nat.simps [simp del]

text \<open>The callback of the map over the header row: \<^verbatim>\<open>clean\<close>, or the placeholder.\<close>

definition clean_header :: "cell \<Rightarrow> jstring" where
  "clean_header h = (if h \<noteq> CNull then trim (String_js h) else [])"

definition placeholder :: "nat \<Rightarrow> jstring" where
  "placeholder i = js ''Column_'' @ show_nat (i + 1)"

definition header_name :: "cell \<Rightarrow> nat \<Rightarrow> jstring" where
  "header_name h i =
     (let clean = clean_header h
      in if clean \<noteq> [] then clean else placeholder i)"

definition build_headers :: "cell list \<Rightarrow> jstring list" where
  "build_headers rawHeaders = map (\<lambda>i. header_name (rawHeaders ! i) i) [0..<length rawHeaders]"

text \<open>\<^verbatim>\<open>a ?? b\<close>\<close>

definition nullish_or :: "cell \<Rightarrow> cell \<Rightarrow> cell" where
  "nullish_or a b = (if a = CNull \<or> a = CUndefined then b else a)"

text \<open>The callback of the filter over the rows after the header row (lines 141 to 155).\<close>

definition keep_row :: "cell list \<Rightarrow> bool" where
  "keep_row row =
     (let nonEmpty = filter nonEmptyCell row in
      if length nonEmpty = 0 then False
      else if length nonEmpty = 1 then
        (let firstVal = trim (String_js (nullish_or (cell_at row 0) (CStr [])));
             looksLikeData =
               (matches_prefix looksLikeData_rx firstVal \<or> instanceof_Date (cell_at row 0))
         in if \<not> looksLikeData then False else True)
      else True)"

definition data_rows :: "cell list list \<Rightarrow> nat \<Rightarrow> cell list list" where
  "data_rows rawRows headerRowIndex = filter keep_row (drop (headerRowIndex + 1) rawRows)"

definition active_col_indices :: "cell list \<Rightarrow> jstring list \<Rightarrow> cell list list \<Rightarrow> nat list" where
  "active_col_indices rawHeaders headers dataRows =
     filter (\<lambda>i.
       let hasHeaderName = nonEmptyCell (cell_at rawHeaders i);
           hasData = list_ex (\<lambda>row. nonEmptyCell (cell_at row i)) dataRows
       in hasHeaderName \<or> hasData) [0..<length headers]"

definition build_columns ::
  "(jstring \<Rightarrow> jstring) \<Rightarrow> nat list \<Rightarrow> jstring list \<Rightarrow> cell list list \<Rightarrow> parsed_column list" where
  "build_columns toLowerCase activeColIndices finalHeaders dataRows =
     map (\<lambda>idx.
       let colIndex = activeColIndices ! idx;
           values = filter nonEmptyCell (map (\<lambda>row. cell_at row colIndex) dataRows)
       in \<lparr>name = finalHeaders ! idx, type = inferColumnType toLowerCase values,
            sample = take 5 values\<rparr>) [0..<length finalHeaders]"

text \<open>
  A row object: the \<^verbatim>\<open>forEach\<close> assigns one property per active column, a later
  assignment to the same name replacing the earlier one. The object is a map from names
  to values; the order of its properties is not kept, and the name \<^verbatim>\<open>__proto__\<close>,
  which JavaScript does not store as a property of its own, is not set apart.
\<close>

definition build_row :: "nat list \<Rightarrow> jstring list \<Rightarrow> cell list \<Rightarrow> (jstring \<rightharpoonup> cell)" where
  "build_row activeColIndices finalHeaders row =
     fold (\<lambda>idx obj.
       let val = cell_at row (activeColIndices ! idx)
       in obj(finalHeaders ! idx \<mapsto> (if nonEmptyCell val then val else CNull)))
       [0..<length activeColIndices] Map.empty"

definition parseFile ::
  "(jstring \<Rightarrow> jstring) \<Rightarrow> workbook \<Rightarrow> jstring \<Rightarrow> jstring option \<Rightarrow> error + parsedTable" where
  "parseFile toLowerCase wb fileName selected =
     (let names = SheetNames wb in
      if length names = 0 then Inl NoSheets
      else
        let targetSheet = targetSheet_of names selected;
            rawRows = Sheets wb targetSheet
        in if length rawRows = 0 then Inl EmptySheet
           else
             let headerRowIndex = find_header rawRows;
                 rawHeaders = rawRows ! headerRowIndex;
                 headers = build_headers rawHeaders;
                 dataRows = data_rows rawRows headerRowIndex;
                 activeColIndices = active_col_indices rawHeaders headers dataRows;
                 finalHeaders = map (\<lambda>i. headers ! i) activeColIndices;
                 cols = build_columns toLowerCase activeColIndices finalHeaders dataRows;
                 rws = map (build_row activeColIndices finalHeaders) dataRows
             in Inr \<lparr>sheetNames = names, selectedSheet = targetSheet, rowCount = length rws,
                   columns = cols, preview = take 10 rws, rows = rws\<rparr>)"

section \<open>The specification's reading of the operations\<close>

text \<open>
  The order of suggestions as the specification words it: after the line and area
  suggestions, one bar and then one pie suggestion for every pair of a category column and
  a numeric column, then the stat cards.
\<close>

definition spec_suggestion_order :: "column list \<Rightarrow> suggestion list" where
  "spec_suggestion_order cols =
     (let dateCols = filter is_date_col cols;
          numericCols = filter is_numeric_col cols;
          categoryCols = filter is_category_col cols
      in concat (map (\<lambda>d. concat (map (\<lambda>n. [line_chart d n, area_chart d n]) numericCols))
           dateCols) @
         concat (map (\<lambda>c. concat (map (\<lambda>n. [bar_chart c n, pie_chart c n]) numericCols))
           categoryCols) @
         map stats_card numericCols)"

text \<open>The closed enumeration of column types.\<close>

definition closed_enum :: "jstring list" where
  "closed_enum =
     [js ''Date'', js ''Number'', js ''Currency'', js ''Percentage'', js ''Category'', js ''Text'']"

text \<open>The count that the header scan computes for a row (\<^verbatim>\<open>nonEmpty\<close>, line 123).\<close>

definition nonEmptyCount :: "cell list \<Rightarrow> nat" where
  "nonEmptyCount row = length (filter nonEmptyCell row)"

text \<open>
  Type inference as the specification words it: every value falls into at most one class,
  by the ordered predicates of the source; the fraction of a class is its share of the
  values; the thresholds are tried in the order percentage, currency, date, number plus
  currency; then the distinct lower-cased trimmed values decide.
\<close>

datatype value_class = Percentage | Currency | Number | Date | Unclassified

definition classify :: "cell \<Rightarrow> value_class" where
  "classify raw =
     (let v = trim (String_js raw) in
      if matches percentage_rx v then Percentage
      else if matches currency_rx v then Currency
      else if matches number_rx v then Number
      else if instanceof_Date raw \<or> isLikelyDate v then Date
      else Unclassified)"

definition fraction :: "value_class \<Rightarrow> cell list \<Rightarrow> rat" where
  "fraction c vs = of_nat (length (filter (\<lambda>v. classify v = c) vs)) / of_nat (length vs)"

definition distinct_values :: "(jstring \<Rightarrow> jstring) \<Rightarrow> cell list \<Rightarrow> nat" where
  "distinct_values toLowerCase vs = card (set (map (\<lambda>v. toLowerCase (trim (String_js v))) vs))"

definition spec_inferColumnType :: "(jstring \<Rightarrow> jstring) \<Rightarrow> cell list \<Rightarrow> jstring" where
  "spec_inferColumnType toLowerCase vs =
     (if fraction Percentage vs \<ge> 6 / 10 then js ''Percentage''
      else if fraction Currency vs \<ge> 6 / 10 then js ''Currency''
      else if fraction Date vs \<ge> 6 / 10 then js ''Date''
      else if fraction Number vs + fraction Currency vs \<ge> 6 / 10 then js ''Number''
      else if distinct_values toLowerCase vs \<le> 20 then js ''Category''
      else js ''Text'')"




text \<open>
  A grid whose data row is longer than its header row, and a grid whose header row
  repeats a name.
\<close>

definition ragged_grid :: "cell list list" where
  "ragged_grid =
     [[CStr (js ''Item''), CStr (js ''Cost'')], [CStr (js ''Rent''), CNull, CStr (js ''late'')]]"

definition ragged_sheets :: "jstring \<Rightarrow> cell list list" where
  "ragged_sheets n = ragged_grid"



section \<open>Properties of the chart recommendation engine\<close>

lemma fold_push_two:
  "fold (\<lambda>x s. push (push s (f x)) (g x)) xs s = s @ concat (map (\<lambda>x. [f x, g x]) xs)"
  by (induction xs arbitrary: s) (simp_all add: push_def)

lemma fold_push_one: "fold (\<lambda>x s. push s (f x)) xs s = s @ map f xs"
  by (induction xs arbitrary: s) (simp_all add: push_def)

lemma line_area_loop_eq:
  "line_area_loop ds ns s =
     s @ concat (map (\<lambda>d. concat (map (\<lambda>n. [line_chart d n, area_chart d n]) ns)) ds)"
  unfolding line_area_loop_def
  by (induction ds arbitrary: s) (simp_all add: fold_push_two)

lemma bar_loop_eq: "bar_loop cs ns s = s @ concat (map (\<lambda>c. map (bar_chart c) ns) cs)"
  unfolding bar_loop_def
  by (induction cs arbitrary: s) (simp_all add: fold_push_one)

lemma pie_loop_eq: "pie_loop cs ns s = s @ concat (map (\<lambda>c. map (pie_chart c) ns) cs)"
  unfolding pie_loop_def
  by (induction cs arbitrary: s) (simp_all add: fold_push_one)

lemma charts_suggestCharts:
  "charts (suggestCharts cols) =
     concat (map (\<lambda>d. concat (map (\<lambda>n. [line_chart d n, area_chart d n])
        (filter is_numeric_col cols))) (filter is_date_col cols)) @
     concat (map (\<lambda>c. map (bar_chart c) (filter is_numeric_col cols))
        (filter is_category_col cols)) @
     concat (map (\<lambda>c. map (pie_chart c) (filter is_numeric_col cols))
        (filter is_category_col cols))"
  by (simp add: suggestCharts_def Let_def line_area_loop_eq bar_loop_eq pie_loop_eq)

lemma statCards_suggestCharts:
  "statCards (suggestCharts cols) = map stats_card (filter is_numeric_col cols)"
  by (simp add: suggestCharts_def Let_def)

lemma length_concat_const:
  "(\<And>x. length (f x) = k) \<Longrightarrow> length (concat (map f xs)) = length xs * k"
  by (induction xs) simp_all

lemmas col_defs = is_date_col_def is_numeric_col_def is_category_col_def js_def

text \<open>
  C2, as the code has it. The suggestions come in this order: for every date column (outer
  loop) and every numeric column (inner loop) one line and then one area suggestion; then
  one bar suggestion for every category column (outer) and numeric column (inner); then,
  after all the bars, one pie suggestion for every category column (outer) and numeric
  column (inner); and the stat cards, one per numeric column in column order, in a list of
  their own.
\<close>

theorem suggestCharts_order:
  "charts (suggestCharts cols) =
     concat (map (\<lambda>d. concat (map (\<lambda>n. [line_chart d n, area_chart d n])
        (filter is_numeric_col cols))) (filter is_date_col cols)) @
     concat (map (\<lambda>c. map (\<lambda>n. bar_chart c n) (filter is_numeric_col cols))
        (filter is_category_col cols)) @
     concat (map (\<lambda>c. map (\<lambda>n. pie_chart c n) (filter is_numeric_col cols))
        (filter is_category_col cols)) \<and>
   statCards (suggestCharts cols) = map stats_card (filter is_numeric_col cols)"
  by (simp add: charts_suggestCharts statCards_suggestCharts)

text \<open>
  C2, as the specification states it (a bar and then a pie per pair), fails: with one
  category column and two numeric columns the code emits bar, bar, pie, pie and then the
  two stat cards, where the stated order is bar, pie, bar, pie.
\<close>

theorem suggestCharts_order_counterexample:
  "charts (suggestCharts
      [\<lparr>name = js ''Kind'', type = js ''Category''\<rparr>,
       \<lparr>name = js ''Amount'', type = js ''Number''\<rparr>,
       \<lparr>name = js ''Share'', type = js ''Percentage''\<rparr>]) @
   statCards (suggestCharts
      [\<lparr>name = js ''Kind'', type = js ''Category''\<rparr>,
       \<lparr>name = js ''Amount'', type = js ''Number''\<rparr>,
       \<lparr>name = js ''Share'', type = js ''Percentage''\<rparr>])
   \<noteq> spec_suggestion_order
      [\<lparr>name = js ''Kind'', type = js ''Category''\<rparr>,
       \<lparr>name = js ''Amount'', type = js ''Number''\<rparr>,
       \<lparr>name = js ''Share'', type = js ''Percentage''\<rparr>]"
proof -
  let ?cols = "[\<lparr>name = js ''Kind'', type = js ''Category''\<rparr>,
       \<lparr>name = js ''Amount'', type = js ''Number''\<rparr>,
       \<lparr>name = js ''Share'', type = js ''Percentage''\<rparr>]"
  have code: "map chartType (charts (suggestCharts ?cols) @ statCards (suggestCharts ?cols)) =
      [js ''bar'', js ''bar'', js ''pie'', js ''pie'', js ''stats'', js ''stats'']"
    by (simp add: charts_suggestCharts statCards_suggestCharts col_defs bar_chart_def
        pie_chart_def stats_card_def)
  have spec: "map chartType (spec_suggestion_order ?cols) =
      [js ''bar'', js ''pie'', js ''bar'', js ''pie'', js ''stats'', js ''stats'']"
    by (simp add: spec_suggestion_order_def col_defs bar_chart_def pie_chart_def stats_card_def)
  have "js ''bar'' \<noteq> js ''pie''"
    by (simp add: js_def)
  with code spec show ?thesis
    by (metis list.inject)
qed

text \<open>
  C5. With \<open>d\<close> columns of type Date, \<open>n\<close> columns of type Number, Currency or
  Percentage and \<open>c\<close> columns of type Category, the charts and the stat cards together
  are \<open>2 * d * n + 2 * c * n + n\<close> suggestions.
\<close>

theorem suggestCharts_count:
  "length (charts (suggestCharts cols)) + length (statCards (suggestCharts cols)) =
     2 * length (filter is_date_col cols) * length (filter is_numeric_col cols) +
     2 * length (filter is_category_col cols) * length (filter is_numeric_col cols) +
     length (filter is_numeric_col cols)"
  by (simp add: charts_suggestCharts statCards_suggestCharts length_concat_const
      length_concat_const [where k = "2 * k" for k])

text \<open>
  C6. \<open>suggestCharts\<close> is a total function of the column list: the source has no
  statement that throws on a list of objects with a name and a type, and the model has no
  error result. On the empty list both lists of the result are empty. A column whose type
  is outside the closed enumeration contributes nothing: removing all such columns from
  the input leaves the result unchanged.
\<close>

theorem suggestCharts_total:
  "suggestCharts [] = \<lparr>charts = [], statCards = []\<rparr> \<and>
   suggestCharts (filter (\<lambda>c. type c \<in> set closed_enum) cols) = suggestCharts cols"
proof -
  have d: "filter is_date_col (filter (\<lambda>c. type c \<in> set closed_enum) cols) =
      filter is_date_col cols"
    by (auto simp: is_date_col_def closed_enum_def intro: filter_cong)
  have n: "filter is_numeric_col (filter (\<lambda>c. type c \<in> set closed_enum) cols) =
      filter is_numeric_col cols"
    by (auto simp: is_numeric_col_def closed_enum_def intro: filter_cong)
  have c: "filter is_category_col (filter (\<lambda>c. type c \<in> set closed_enum) cols) =
      filter is_category_col cols"
    by (auto simp: is_category_col_def closed_enum_def intro: filter_cong)
  have "suggestCharts [] = \<lparr>charts = [], statCards = []\<rparr>"
    by (simp add: suggestCharts_def line_area_loop_def bar_loop_def pie_loop_def)
  moreover have "suggestCharts (filter (\<lambda>c. type c \<in> set closed_enum) cols) = suggestCharts cols"
    unfolding suggestCharts_def Let_def d n c ..
  ultimately show ?thesis by simp
qed

section \<open>Properties of the sheet parser\<close>

lemmas rx_defs = Opt_def Plus_def chr_def one_of_def digit_def space_def is_digit_def is_ws_def
  ascii_lower_def ci_def ci_word_def Rep_def dollar_def pound_def euro_def yen_def indian_rupee_def rupee_def
  digit_or_comma_def fraction_opt_def currency_glyph_def looksLikeData_rx_def percentage_rx_def
  currency_rx_def number_rx_def date_sep_def month_rx_def date_patterns_def isLikelyDate_def

lemmas cell_defs = nonEmptyCell_def trim_def js_def cell_at_def nullish_or_def

subsection \<open>The row filter\<close>

text \<open>
  C1, at the row of the specification's example. The row \<^verbatim>\<open>[null, "TOTAL", null, null]\<close>
  has exactly one non-empty cell, at position 1, and the filter drops it: the test reads
  \<^verbatim>\<open>row[0]\<close>, which is \<^verbatim>\<open>null\<close> and does not look like data, whatever the position
  of the filled cell. After a header row, nothing of it remains among the data rows.
\<close>

theorem keep_row_sole_cell_at_1:
  "length (filter nonEmptyCell [CNull, CStr (js ''TOTAL''), CNull, CNull]) = 1 \<and>
   nonEmptyCell (cell_at [CNull, CStr (js ''TOTAL''), CNull, CNull] 1) \<and>
   keep_row [CNull, CStr (js ''TOTAL''), CNull, CNull] = False \<and>
   data_rows [[CStr (js ''Item''), CStr (js ''Cost''), CStr (js ''Qty''), CStr (js ''Note'')],
              [CNull, CStr (js ''TOTAL''), CNull, CNull]] 0 = []"
  by (simp add: data_rows_def keep_row_def cell_defs rx_defs)

subsection \<open>The header scan\<close>

lemma scan_row_inv:
  "k \<le> length rawRows \<Longrightarrow> fold (scan_row rawRows) [0..<k] (0, 0) = (h, m) \<Longrightarrow>
     (\<forall>j<k. nonEmptyCount (rawRows ! j) \<le> m) \<and>
     (\<forall>j<h. nonEmptyCount (rawRows ! j) < m) \<and>
     (k = 0 \<longrightarrow> h = 0 \<and> m = 0) \<and>
     (0 < k \<longrightarrow> h < k \<and> m = nonEmptyCount (rawRows ! h))"
proof (induction k arbitrary: h m)
  case 0
  then show ?case by simp
next
  case (Suc k)
  obtain h0 m0 where st: "fold (scan_row rawRows) [0..<k] (0, 0) = (h0, m0)"
    by (cases "fold (scan_row rawRows) [0..<k] (0, 0)") 
  from Suc.prems(1) have "k \<le> length rawRows" by simp
  from Suc.IH [OF this st] have
    le: "\<forall>j<k. nonEmptyCount (rawRows ! j) \<le> m0" and
    lt: "\<forall>j<h0. nonEmptyCount (rawRows ! j) < m0" and
    z: "k = 0 \<longrightarrow> h0 = 0 \<and> m0 = 0" and
    p: "0 < k \<longrightarrow> h0 < k \<and> m0 = nonEmptyCount (rawRows ! h0)"
    by blast+
  from Suc.prems(2) st have step: "scan_row rawRows k (h0, m0) = (h, m)"
    by simp
  show ?case
  proof (cases "nonEmptyCount (rawRows ! k) > m0")
    case True
    with step have hm: "h = k" "m = nonEmptyCount (rawRows ! k)"
      by (auto simp: scan_row_def nonEmptyCount_def)
    have "\<forall>j<Suc k. nonEmptyCount (rawRows ! j) \<le> m"
      using le True hm by (auto simp: less_Suc_eq intro: order_trans less_imp_le)
    moreover have "\<forall>j<h. nonEmptyCount (rawRows ! j) < m"
      using le True hm by (auto intro: le_less_trans)
    ultimately show ?thesis using hm by simp
  next
    case False
    with step have hm: "h = h0" "m = m0"
      by (auto simp: scan_row_def nonEmptyCount_def)
    have "\<forall>j<Suc k. nonEmptyCount (rawRows ! j) \<le> m"
      using le False hm by (auto simp: less_Suc_eq)
    moreover have "h < Suc k \<and> m = nonEmptyCount (rawRows ! h)"
    proof (cases "k = 0")
      case True
      with z hm False show ?thesis by simp
    next
      case False
      with p hm show ?thesis by simp
    qed
    ultimately show ?thesis using lt hm by simp
  qed
qed

text \<open>
  C4. For a grid with at least one row, the header row index lies below
  \<open>min 10 rowCount\<close>, the row there has the largest count of non-empty cells among the
  first ten rows, and every earlier row has a strictly smaller count: it is the first row
  of the window that reaches the maximum.
\<close>

theorem find_header_first_max:
  assumes "rawRows \<noteq> []"
  shows "find_header rawRows < min 10 (length rawRows) \<and>
     nonEmptyCount (rawRows ! find_header rawRows) = Max (nonEmptyCount ` set (take 10 rawRows)) \<and>
     (\<forall>j < find_header rawRows.
        nonEmptyCount (rawRows ! j) < nonEmptyCount (rawRows ! find_header rawRows))"
proof -
  let ?k = "min 10 (length rawRows)"
  obtain h m where st: "fold (scan_row rawRows) [0..<?k] (0, 0) = (h, m)"
    by (cases "fold (scan_row rawRows) [0..<?k] (0, 0)")
  then have fh: "find_header rawRows = h"
    by (simp add: find_header_def)
  from assms have pos: "0 < ?k" by simp
  have "?k \<le> length rawRows" by simp
  from scan_row_inv [OF this st] pos have
    le: "\<forall>j<?k. nonEmptyCount (rawRows ! j) \<le> m" and
    lt: "\<forall>j<h. nonEmptyCount (rawRows ! j) < m" and
    p: "h < ?k" "m = nonEmptyCount (rawRows ! h)"
    by blast+
  have "take ?k rawRows = take 10 rawRows"
    by (simp add: min_def)
  moreover have "(!) rawRows ` {0..<?k} = set (take ?k rawRows)"
    by (rule nth_image) simp
  ultimately have window: "set (take 10 rawRows) = (\<lambda>j. rawRows ! j) ` {0..<?k}"
    by simp
  have "Max (nonEmptyCount ` set (take 10 rawRows)) = m"
  proof (rule Max_eqI)
    show "finite (nonEmptyCount ` set (take 10 rawRows))" by simp
    show "\<And>y. y \<in> nonEmptyCount ` set (take 10 rawRows) \<Longrightarrow> y \<le> m"
      using le unfolding window by auto
    show "m \<in> nonEmptyCount ` set (take 10 rawRows)"
      using p unfolding window by auto
  qed
  with p lt fh show ?thesis by simp
qed

theorem find_header_first_max_witness:
  "find_header [[CStr (js ''Budget''), CNull], [CStr (js ''Item''), CStr (js ''Cost'')],
      [CStr (js ''Rent''), CStr (js ''900'')]] = 1 \<and>
   nonEmptyCount ([[CStr (js ''Budget''), CNull], [CStr (js ''Item''), CStr (js ''Cost'')],
      [CStr (js ''Rent''), CStr (js ''900'')]] ! 1) =
     Max (nonEmptyCount ` set (take 10 [[CStr (js ''Budget''), CNull],
       [CStr (js ''Item''), CStr (js ''Cost'')], [CStr (js ''Rent''), CStr (js ''900'')]]))"
proof -
  let ?g = "[[CStr (js ''Budget''), CNull], [CStr (js ''Item''), CStr (js ''Cost'')],
      [CStr (js ''Rent''), CStr (js ''900'')]]"
  have ne: "?g \<noteq> []" by simp
  have h: "find_header ?g = 1"
    by (simp add: find_header_def scan_row_def cell_defs is_ws_def)
  from find_header_first_max [OF ne] h show ?thesis
    by simp
qed

subsection \<open>Column type inference\<close>

lemma count_value_classify:
  "count_value raw k =
     (case classify raw of
        Percentage \<Rightarrow> k\<lparr>percentageCount := percentageCount k + 1\<rparr>
      | Currency \<Rightarrow> k\<lparr>currencyCount := currencyCount k + 1\<rparr>
      | Number \<Rightarrow> k\<lparr>numberCount := numberCount k + 1\<rparr>
      | Date \<Rightarrow> k\<lparr>dateCount := dateCount k + 1\<rparr>
      | Unclassified \<Rightarrow> k)"
  unfolding count_value_def classify_def Let_def by simp

lemma fold_count_value:
  "percentageCount (fold count_value vs k) =
     percentageCount k + length (filter (\<lambda>v. classify v = Percentage) vs) \<and>
   currencyCount (fold count_value vs k) =
     currencyCount k + length (filter (\<lambda>v. classify v = Currency) vs) \<and>
   numberCount (fold count_value vs k) =
     numberCount k + length (filter (\<lambda>v. classify v = Number) vs) \<and>
   dateCount (fold count_value vs k) =
     dateCount k + length (filter (\<lambda>v. classify v = Date) vs)"
proof (induction vs arbitrary: k)
  case Nil
  show ?case by simp
next
  case (Cons v vs)
  show ?case
    using Cons.IH [of "count_value v k"]
    by (cases "classify v") (simp_all add: count_value_classify)
qed

lemma inferColumnType_counts:
  "inferColumnType lc vs =
     (if vs = [] then js ''Text''
      else if meets (length (filter (\<lambda>v. classify v = Percentage) vs)) (length vs)
        then js ''Percentage''
      else if meets (length (filter (\<lambda>v. classify v = Currency) vs)) (length vs)
        then js ''Currency''
      else if meets (length (filter (\<lambda>v. classify v = Date) vs)) (length vs)
        then js ''Date''
      else if meets (length (filter (\<lambda>v. classify v = Number) vs) +
          length (filter (\<lambda>v. classify v = Currency) vs)) (length vs)
        then js ''Number''
      else if card (set (map (\<lambda>v. lc (trim (String_js v))) vs)) \<le> 20 then js ''Category''
      else js ''Text'')"
  unfolding inferColumnType_def Let_def
  by (simp only: fold_count_value counters.simps add_0 length_0_conv)

lemma meets_fraction:
  "meets (length (filter (\<lambda>v. classify v = c) vs)) (length vs) = (fraction c vs \<ge> 6 / 10)"
  by (simp add: meets_def fraction_def threshold_def)

lemma meets_fraction_sum:
  "meets (length (filter (\<lambda>v. classify v = c) vs) + length (filter (\<lambda>v. classify v = d) vs))
     (length vs) = (fraction c vs + fraction d vs \<ge> 6 / 10)"
  by (simp add: meets_def fraction_def threshold_def add_divide_distrib)

text \<open>
  C3. For a non-empty list of values the inferred type is the one the thresholds give,
  tried in the fixed order percentage fraction, currency fraction, date fraction, number
  fraction plus currency fraction, each against \<open>0.6\<close>, the first one met winning; when
  none is met the type is Category for at most 20 distinct lower-cased trimmed values and
  Text otherwise.
\<close>

theorem inferColumnType_thresholds:
  assumes "vs \<noteq> []"
  shows "inferColumnType lc vs = spec_inferColumnType lc vs"
  unfolding inferColumnType_counts spec_inferColumnType_def distinct_values_def
    meets_fraction meets_fraction_sum
  using assms by (simp only: if_False)

theorem inferColumnType_thresholds_witness:
  "[CStr (js ''$450''), CStr (js ''$1,200''), CStr (js ''$510'')] \<noteq> [] \<and>
   spec_inferColumnType ascii_toLowerCase
     [CStr (js ''$450''), CStr (js ''$1,200''), CStr (js ''$510'')] = js ''Currency''"
proof -
  let ?vs = "[CStr (js ''$450''), CStr (js ''$1,200''), CStr (js ''$510'')]"
  have ne: "?vs \<noteq> []" by simp
  have "inferColumnType ascii_toLowerCase ?vs = js ''Currency''"
    by (simp add: inferColumnType_def count_value_def meets_def threshold_def cell_defs rx_defs)
  with inferColumnType_thresholds [OF ne, of ascii_toLowerCase] show ?thesis
    by simp
qed

text \<open>
  C7. The inferred type is the same for every reordering of the values: two lists with the
  same elements, each as often in one as in the other, get the same type.
\<close>

theorem inferColumnType_permutation:
  assumes "mset vs = mset ws"
  shows "inferColumnType lc vs = inferColumnType lc ws"
proof -
  have len: "length vs = length ws"
    using assms by (rule mset_eq_length)
  have cnt: "length (filter P vs) = length (filter P ws)" for P
  proof -
    have "mset (filter P vs) = mset (filter P ws)"
      using assms by simp
    then show ?thesis by (rule mset_eq_length)
  qed
  have "set vs = set ws"
    using assms by (rule mset_eq_setD)
  then have st: "set (map f vs) = set (map f ws)" for f :: "cell \<Rightarrow> jstring"
    by simp
  have nil: "(vs = []) = (ws = [])"
    using len by auto
  show ?thesis
    by (simp only: inferColumnType_counts cnt len st nil)
qed

theorem inferColumnType_permutation_witness:
  "mset [CStr (js ''5%''), CStr (js ''n/a''), CStr (js ''7%'')] =
     mset [CStr (js ''n/a''), CStr (js ''7%''), CStr (js ''5%'')] \<and>
   inferColumnType ascii_toLowerCase [CStr (js ''5%''), CStr (js ''n/a''), CStr (js ''7%'')] =
     inferColumnType ascii_toLowerCase [CStr (js ''n/a''), CStr (js ''7%''), CStr (js ''5%'')]"
proof -
  have m: "mset [CStr (js ''5%''), CStr (js ''n/a''), CStr (js ''7%'')] =
     mset [CStr (js ''n/a''), CStr (js ''7%''), CStr (js ''5%'')]"
    by (simp add: add_mset_commute)
  from inferColumnType_permutation [OF m] m show ?thesis
    by simp
qed

subsection \<open>Sheet selection and the result of a parse\<close>

lemma parseFile_Inr:
  assumes "parseFile lc wb f sel = Inr t"
  shows "SheetNames wb \<noteq> [] \<and>
    selectedSheet t = targetSheet_of (SheetNames wb) sel \<and>
    sheetNames t = SheetNames wb \<and>
    Sheets wb (selectedSheet t) \<noteq> [] \<and>
    (let rawRows = Sheets wb (selectedSheet t);
         h = find_header rawRows;
         rawHeaders = rawRows ! h;
         headers = build_headers rawHeaders;
         dataRows = data_rows rawRows h;
         act = active_col_indices rawHeaders headers dataRows;
         fin = map (\<lambda>i. headers ! i) act
     in columns t = build_columns lc act fin dataRows \<and>
        rows t = map (build_row act fin) dataRows)"
  using assms
  by (auto simp: parseFile_def Let_def split: if_splits)






subsection \<open>Active columns and the materialised table\<close>

lemma cell_at_take: "i < n \<Longrightarrow> cell_at (take n row) i = cell_at row i"
  by (simp add: cell_at_def)

lemma length_build_headers: "length (build_headers rawHeaders) = length rawHeaders"
  by (simp add: build_headers_def)

lemma active_col_indices_bound:
  "i \<in> set (active_col_indices rawHeaders headers dataRows) \<Longrightarrow> i < length headers"
  by (simp add: active_col_indices_def)

lemma active_col_indices_take:
  "length headers \<le> n \<Longrightarrow>
   active_col_indices rawHeaders headers (map (take n) dataRows) =
     active_col_indices rawHeaders headers dataRows"
  unfolding active_col_indices_def Let_def
  by (rule filter_cong) (simp_all add: list_ex_iff cell_at_take)

lemma build_columns_take:
  assumes "\<forall>i \<in> set act. i < n" and "length fin = length act"
  shows "build_columns lc act fin (map (take n) dataRows) = build_columns lc act fin dataRows"
proof -
  have "cell_at (take n row) (act ! idx) = cell_at row (act ! idx)"
    if "idx < length fin" for idx row
  proof -
    from that assms have "act ! idx < n" by simp
    then show ?thesis by (rule cell_at_take)
  qed
  then show ?thesis
    unfolding build_columns_def Let_def
    by (intro map_cong refl) (simp add: comp_def)
qed

lemma build_row_take:
  assumes "\<forall>i \<in> set act. i < n"
  shows "build_row act fin (take n row) = build_row act fin row"
  unfolding build_row_def Let_def
proof (rule fold_cong [OF refl refl])
  fix idx assume "idx \<in> set [0..<length act]"
  with assms have "act ! idx < n" by simp
  then show "(\<lambda>obj. obj(fin ! idx \<mapsto>
        if nonEmptyCell (cell_at (take n row) (act ! idx)) then cell_at (take n row) (act ! idx)
        else CNull)) =
      (\<lambda>obj. obj(fin ! idx \<mapsto>
        if nonEmptyCell (cell_at row (act ! idx)) then cell_at row (act ! idx) else CNull))"
    by (simp add: cell_at_take)
qed



lemma samples_build_columns:
  "map sample (build_columns lc act fin dataRows) =
     map (\<lambda>idx. take 5 (filter nonEmptyCell (map (\<lambda>row. cell_at row (act ! idx)) dataRows)))
       [0..<length fin]"
  by (simp add: build_columns_def Let_def comp_def)

lemma parseFile_one_sheet:
  "g \<noteq> [] \<Longrightarrow>
   \<exists>t. parseFile lc \<lparr>SheetNames = [n], Sheets = (\<lambda>x. g)\<rparr> f None = Inr t \<and>
       selectedSheet t = n"
  by (simp add: parseFile_def Let_def targetSheet_of_def)

text \<open>
  C10. Whatever the length of the data rows, every active raw column index lies below the
  length of the header row, and the columns of the table (names, types and samples) and
  its row objects are those built from the retained rows cut at the length of the header
  row: a cell at an index at or beyond that length reaches no sample and no row object.
\<close>

theorem beyond_header_ignored:
  assumes "parseFile lc wb f sel = Inr t"
  shows "let rawRows = Sheets wb (selectedSheet t);
             h = find_header rawRows;
             rawHeaders = rawRows ! h;
             headers = build_headers rawHeaders;
             cut = map (take (length rawHeaders)) (data_rows rawRows h);
             act = active_col_indices rawHeaders headers cut;
             fin = map (\<lambda>i. headers ! i) act
         in (\<forall>i \<in> set act. i < length rawHeaders) \<and>
            columns t = build_columns lc act fin cut \<and>
            rows t = map (build_row act fin) cut"
proof -
  let ?rawRows = "Sheets wb (selectedSheet t)"
  let ?h = "find_header ?rawRows"
  let ?rawHeaders = "?rawRows ! ?h"
  let ?headers = "build_headers ?rawHeaders"
  let ?dataRows = "data_rows ?rawRows ?h"
  let ?cut = "map (take (length ?rawHeaders)) ?dataRows"
  let ?act = "active_col_indices ?rawHeaders ?headers ?dataRows"
  let ?fin = "map (\<lambda>i. ?headers ! i) ?act"
  have len: "length ?headers = length ?rawHeaders"
    by (rule length_build_headers)
  have act_cut: "active_col_indices ?rawHeaders ?headers ?cut = ?act"
    by (rule active_col_indices_take) (simp add: len)
  have bound: "\<forall>i \<in> set ?act. i < length ?rawHeaders"
    using active_col_indices_bound [of _ ?rawHeaders ?headers ?dataRows] len
    by auto
  from parseFile_Inr [OF assms] have
    c: "columns t = build_columns lc ?act ?fin ?dataRows" and
    r: "rows t = map (build_row ?act ?fin) ?dataRows"
    by (simp_all add: Let_def)
  have bc: "build_columns lc ?act ?fin ?cut = build_columns lc ?act ?fin ?dataRows"
    by (rule build_columns_take [OF bound]) simp
  have br: "map (build_row ?act ?fin) ?cut = map (build_row ?act ?fin) ?dataRows"
    by (simp add: build_row_take [OF bound] comp_def)
  show ?thesis
    unfolding Let_def act_cut bc br
    using bound c r by (intro conjI)
qed


theorem beyond_header_ignored_witness:
  "\<not> isl (parseFile ascii_toLowerCase \<lparr>SheetNames = [js ''S''], Sheets = ragged_sheets\<rparr>
      (js ''f.csv'') None) \<and>
   map sample (columns (projr (parseFile ascii_toLowerCase
      \<lparr>SheetNames = [js ''S''], Sheets = ragged_sheets\<rparr> (js ''f.csv'') None))) =
     [[CStr (js ''Rent'')], []]"
proof -
  let ?wb = "\<lparr>SheetNames = [js ''S''], Sheets = ragged_sheets\<rparr>"
  let ?P = "parseFile ascii_toLowerCase ?wb (js ''f.csv'') None"
  have sheets: "ragged_sheets = (\<lambda>x. ragged_grid)"
    by (rule ext) (simp add: ragged_sheets_def)
  have "ragged_grid \<noteq> []"
    by (simp add: ragged_grid_def)
  from parseFile_one_sheet [OF this, of ascii_toLowerCase "js ''S''" "js ''f.csv''"]
  obtain t where t: "?P = Inr t" and sel: "selectedSheet t = js ''S''"
    unfolding sheets by blast
  have grid: "Sheets ?wb (selectedSheet t) = ragged_grid"
    by (simp add: ragged_sheets_def)
  have h: "find_header ragged_grid = 0"
    by (simp add: find_header_def scan_row_def ragged_grid_def cell_defs is_ws_def)
  have raw: "ragged_grid ! 0 = [CStr (js ''Item''), CStr (js ''Cost'')]"
    by (simp add: ragged_grid_def)
  have hd: "build_headers [CStr (js ''Item''), CStr (js ''Cost'')] = [js ''Item'', js ''Cost'']"
    by (simp add: build_headers_def header_name_def clean_header_def trim_def js_def is_ws_def)
  have dr: "data_rows ragged_grid 0 = [[CStr (js ''Rent''), CNull, CStr (js ''late'')]]"
    by (simp add: data_rows_def keep_row_def ragged_grid_def cell_defs is_ws_def)
  have cut: "map (take (length [CStr (js ''Item''), CStr (js ''Cost'')]))
      [[CStr (js ''Rent''), CNull, CStr (js ''late'')]] = [[CStr (js ''Rent''), CNull]]"
    by simp
  have act: "active_col_indices [CStr (js ''Item''), CStr (js ''Cost'')] [js ''Item'', js ''Cost'']
      [[CStr (js ''Rent''), CNull]] = [0, 1]"
    by (simp add: active_col_indices_def cell_defs is_ws_def)
  from beyond_header_ignored [OF t]
  have "columns t = build_columns ascii_toLowerCase [0, 1] [js ''Item'', js ''Cost'']
      [[CStr (js ''Rent''), CNull]]"
    unfolding Let_def grid h raw hd dr cut act by simp
  then have "map sample (columns t) = [[CStr (js ''Rent'')], []]"
    by (simp add: samples_build_columns cell_defs is_ws_def upt_conv_Cons)
  with t show ?thesis by simp
qed


subsection \<open>Column names\<close>












end
